theory Spec2Isabelle
  imports Main
begin

section \<open>The GitHub OAuth provider of the auth framework (oauth/github/github.go)\<close>

text \<open>
  The provider is one Go file. It builds an \<^verbatim>\<open>oauth2.Config\<close> from its static
  configuration and the inbound request (\<^verbatim>\<open>OAuthConfig\<close>), starts the redirect flow
  (\<^verbatim>\<open>Login\<close>) and, on the callback, runs the closure that \<^verbatim>\<open>New\<close> installs as
  \<^verbatim>\<open>Config.AuthorizeHandler\<close>. Everything the closure does beyond returning a value
  is explicit below: the store it writes to and the HTTP calls it makes are fields of a
  \<open>world\<close> that is passed in and returned, the answers of the issuer and the faults
  of the store are fields of an \<open>env\<close>, a Go \<^verbatim>\<open>panic\<close> is an outcome of its own.
\<close>

subsection \<open>Errors\<close>

text \<open>
  Go error values. \<open>ErrorString\<close> is what \<^verbatim>\<open>errors.New\<close> and \<^verbatim>\<open>fmt.Errorf\<close> build.
  \<open>ErrUnauthorized\<close> and \<open>ErrInvalidAccount\<close> are the sentinel errors of package
  \<^verbatim>\<open>auth\<close>. \<open>ValidationError\<close> is \<^verbatim>\<open>jwt.ValidationError\<close> with its \<^verbatim>\<open>Inner\<close> error, its
  text and its \<^verbatim>\<open>Errors\<close> bit field (a set of flags here). \<open>RuntimeError\<close> is the value
  of a panic raised by the Go runtime.
\<close>

datatype vflag =
  ValidationErrorMalformed | ValidationErrorUnverifiable | ValidationErrorSignatureInvalid
  | ValidationErrorExpired | ValidationErrorIssuedAt | ValidationErrorNotValidYet

datatype error =
  ErrorString string
  | ErrUnauthorized
  | ErrInvalidAccount
  | ErrRecordNotFound
  | ValidationError "error option" string "vflag set"
  | RuntimeError string


subsection \<open>Configuration, request and session\<close>

text \<open>
  \<^verbatim>\<open>Config\<close> as the source declares it. The handler's type is a parameter of the record,
  \<open>None\<close> is a nil \<^verbatim>\<open>AuthorizeHandler\<close>.
\<close>

record 'h Config =
  ClientID :: string
  ClientSecret :: string
  AuthorizeURL :: string
  TokenURL :: string
  RedirectURL :: string
  Scopes :: "string list"
  AuthorizeHandler :: "'h option"

text \<open>The package variables \<^verbatim>\<open>AuthorizeURL\<close> and \<^verbatim>\<open>TokenURL\<close>.\<close>

definition AuthorizeURL_var :: string where
  "AuthorizeURL_var = ''https://github.com/login/oauth/authorize''"

definition TokenURL_var :: string where
  "TokenURL_var = ''https://github.com/login/oauth/access_token''"

text \<open>\<^verbatim>\<open>&Config{}\<close>: every field at its zero value.\<close>

definition Config_zero :: "'h Config" where
  "Config_zero = \<lparr>ClientID = [], ClientSecret = [], AuthorizeURL = [], TokenURL = [],
     RedirectURL = [], Scopes = [], AuthorizeHandler = None\<rparr>"

text \<open>
  The signing methods that the JWT library registers. Only the HMAC family signs and
  verifies with a byte-string key, which is what the provider passes.
\<close>

datatype signing_method =
  HS256 | HS384 | HS512 | RS256 | RS384 | RS512 | ES256 | ES384 | ES512
  | PS256 | PS384 | PS512 | SigningMethodNone

fun is_hmac :: "signing_method \<Rightarrow> bool" where
  "is_hmac HS256 = True"
| "is_hmac HS384 = True"
| "is_hmac HS512 = True"
| "is_hmac _ = False"

text \<open>
  The claim set of a token: the subject and the three time claims that the library's
  validation reads (0 is an absent claim, as \<^verbatim>\<open>omitempty\<close> writes it).
\<close>

record jwt_claims =
  Subject :: string
  ExpiresAt :: int
  IssuedAt :: int
  NotBefore :: int

text \<open>
  Signatures are symbolic: \<open>Mac m key (alg, claims)\<close> is the MAC that method \<open>m\<close>
  computes under \<open>key\<close> over the signing input (header and claims); two MACs are equal
  only if method, key and input are. \<open>OtherSignature\<close> is any other third segment.
\<close>

datatype signature =
  Mac signing_method string "signing_method \<times> jwt_claims"
  | OtherSignature string

text \<open>
  The \<^verbatim>\<open>state\<close> query parameter, by what \<^verbatim>\<open>jwt.Parse\<close> makes of the string: a text
  that is not three dot-separated segments (\<open>NotThreeSegments []\<close> is the empty string),
  three segments whose header or claims do not decode (with the decoder's message), a
  header whose \<^verbatim>\<open>alg\<close> is missing or not registered, or a compact token with its method,
  claims and signature.
\<close>

datatype state_string =
  NotThreeSegments string
  | Undecodable string
  | AlgUnavailable jwt_claims
  | Compact signing_method jwt_claims signature

text \<open>What the provider reads of the inbound \<^verbatim>\<open>*http.Request\<close>.\<close>

record request =
  URL_Scheme :: string
  Host :: string
  Query_state :: state_string
  Query_code :: string

text \<open>
  What the provider reads of \<^verbatim>\<open>*auth.Session\<close>: the signing method and secret of
  \<^verbatim>\<open>session.Auth.Config\<close>, whether its \<^verbatim>\<open>UserModel\<close> is non-nil, and the framework's
  \<^verbatim>\<open>session.AuthURL\<close>, which is not part of this file and is taken as a function.
\<close>

record session =
  SigningMethod :: signing_method
  SignedString :: string
  UserModel_set :: bool
  AuthURL :: "string \<Rightarrow> string"

subsection \<open>OAuthConfig\<close>

record oauth2_Config =
  oa_ClientID :: string
  oa_ClientSecret :: string
  oa_AuthURL :: string
  oa_TokenURL :: string
  oa_RedirectURL :: string
  oa_Scopes :: "string list"

definition GetName :: string where
  "GetName = ''github''"

definition OAuthConfig :: "'h Config \<Rightarrow> request \<Rightarrow> session \<Rightarrow> oauth2_Config" where
  "OAuthConfig config req sess =
     (let scheme = URL_Scheme req;
          scheme = (if scheme = [] then ''http://'' else scheme)
      in \<lparr>oa_ClientID = ClientID config,
          oa_ClientSecret = ClientSecret config,
          oa_AuthURL = AuthorizeURL config,
          oa_TokenURL = TokenURL config,
          oa_RedirectURL = scheme @ Host req @ AuthURL sess ''github/callback'',
          oa_Scopes = Scopes config\<rparr>)"

subsection \<open>The JWT library, as the provider calls it\<close>

text \<open>
  \<^verbatim>\<open>jwt.Parse\<close>, \<^verbatim>\<open>jwt.NewWithClaims\<close> and \<^verbatim>\<open>SignedString\<close> belong to the imported package
  \<^verbatim>\<open>dgrijalva/jwt-go\<close>. A parsed token carries its method (nil when none was resolved),
  its claims and the \<^verbatim>\<open>Valid\<close> flag. \<^verbatim>\<open>Claims\<close> is an interface value: the datatype keeps
  its dynamic type, which the provider's type assertion inspects.
\<close>

datatype Claims = NilClaims | MapClaims jwt_claims | StandardClaimsPtr jwt_claims

record Token =
  Method :: "signing_method option"
  Claims :: Claims
  Valid :: bool

definition ErrSignatureInvalid :: error where
  "ErrSignatureInvalid = ErrorString ''signature is invalid''"

definition ErrInvalidKeyType :: error where
  "ErrInvalidKeyType = ErrorString ''key is of invalid type''"

text \<open>
  \<^verbatim>\<open>SigningMethod.Sign\<close> and \<^verbatim>\<open>SigningMethod.Verify\<close> with a \<^verbatim>\<open>[]byte\<close> key. An HMAC method
  verifies by computing the MAC again and comparing; every other method refuses the key.
  The error of a refusal stands for whichever error the method reports; the provider
  never inspects it.
\<close>

definition Sign :: "signing_method \<Rightarrow> signing_method \<times> jwt_claims \<Rightarrow> string \<Rightarrow> error + signature" where
  "Sign m signingString key =
     (if is_hmac m then Inr (Mac m key signingString) else Inl ErrInvalidKeyType)"

definition Verify :: "signing_method \<Rightarrow> signing_method \<times> jwt_claims \<Rightarrow> signature \<Rightarrow> string \<Rightarrow> error option" where
  "Verify m signingString sig key =
     (if is_hmac m then (if sig = Mac m key signingString then None else Some ErrSignatureInvalid)
      else Some ErrInvalidKeyType)"

text \<open>\<^verbatim>\<open>jwt.NewWithClaims(m, claims).SignedString(key)\<close>.\<close>

definition Token_SignedString :: "signing_method \<Rightarrow> jwt_claims \<Rightarrow> string \<Rightarrow> error + state_string" where
  "Token_SignedString m claims key =
     (case Sign m (m, claims) key of
        Inl e \<Rightarrow> Inl e
      | Inr sig \<Rightarrow> Inr (Compact m claims sig))"

text \<open>
  \<^verbatim>\<open>MapClaims.Valid\<close> at time \<open>now\<close>: the \<^verbatim>\<open>Inner\<close> error and the flags of the
  validation error it builds (no flag: the claims are valid).
\<close>

definition MapClaims_Valid :: "int \<Rightarrow> jwt_claims \<Rightarrow> error option \<times> vflag set" where
  "MapClaims_Valid now c =
     (let v = (None, {});
          v = (if ExpiresAt c \<noteq> 0 \<and> \<not> now \<le> ExpiresAt c
               then (Some (ErrorString ''Token is expired''), insert ValidationErrorExpired (snd v))
               else v);
          v = (if IssuedAt c \<noteq> 0 \<and> \<not> IssuedAt c \<le> now
               then (Some (ErrorString ''Token used before issued''), insert ValidationErrorIssuedAt (snd v))
               else v);
          v = (if NotBefore c \<noteq> 0 \<and> \<not> NotBefore c \<le> now
               then (Some (ErrorString ''Token is not valid yet''), insert ValidationErrorNotValidYet (snd v))
               else v)
      in v)"

text \<open>
  \<^verbatim>\<open>jwt.Parse(tokenString, keyFunc)\<close> of version 3 of the library, which is
  \<^verbatim>\<open>ParseWithClaims\<close> with an empty \<^verbatim>\<open>MapClaims\<close>: the claims of every token it returns are
  a \<^verbatim>\<open>MapClaims\<close>, or nil when a segment did not decode (the library leaves an empty
  \<^verbatim>\<open>MapClaims\<close> there when only the claims segment failed; the provider cannot tell the
  two apart). Both results are returned together, as in Go: the token is nil only when
  the string is not three segments. The steps are the library's: resolve the method, ask
  the key function for the key and wrap its error, validate the claims, verify the
  signature, and set \<^verbatim>\<open>Valid\<close> when no flag was raised.
\<close>

definition jwt_Parse :: "int \<Rightarrow> state_string \<Rightarrow> (Token \<Rightarrow> error + string) \<Rightarrow> Token option \<times> error option" where
  "jwt_Parse now tokenString keyFunc =
     (case tokenString of
        NotThreeSegments s \<Rightarrow>
          (None, Some (ValidationError None ''token contains an invalid number of segments''
                         {ValidationErrorMalformed}))
      | Undecodable msg \<Rightarrow>
          (Some \<lparr>Method = None, Claims = NilClaims, Valid = False\<rparr>,
           Some (ValidationError (Some (ErrorString msg)) [] {ValidationErrorMalformed}))
      | AlgUnavailable c \<Rightarrow>
          (Some \<lparr>Method = None, Claims = MapClaims c, Valid = False\<rparr>,
           Some (ValidationError None ''signing method (alg) is unavailable.''
                   {ValidationErrorUnverifiable}))
      | Compact m c sig \<Rightarrow>
          (let token = \<lparr>Method = Some m, Claims = MapClaims c, Valid = False\<rparr>
           in case keyFunc token of
                Inl e \<Rightarrow>
                  (Some token,
                   Some (case e of
                           ValidationError i t f \<Rightarrow> e
                         | _ \<Rightarrow> ValidationError (Some e) [] {ValidationErrorUnverifiable}))
              | Inr key \<Rightarrow>
                  (let vErr = MapClaims_Valid now c;
                       vErr = (case Verify m (m, c) sig key of
                                 Some e \<Rightarrow> (Some e, insert ValidationErrorSignatureInvalid (snd vErr))
                               | None \<Rightarrow> vErr)
                   in if snd vErr = {} then (Some (token\<lparr>Valid := True\<rparr>), None)
                      else (Some token, Some (ValidationError (fst vErr) [] (snd vErr))))))"

subsection \<open>fmt.Sprint on integers\<close>

definition digit_char :: "nat \<Rightarrow> char" where
  "digit_char d =
     (if d = 0 then CHR ''0'' else if d = 1 then CHR ''1'' else if d = 2 then CHR ''2''
      else if d = 3 then CHR ''3'' else if d = 4 then CHR ''4'' else if d = 5 then CHR ''5''
      else if d = 6 then CHR ''6'' else if d = 7 then CHR ''7'' else if d = 8 then CHR ''8''
      else CHR ''9'')"

function decimal :: "nat \<Rightarrow> string" where
  "decimal n = (if n < 10 then [digit_char n] else decimal (n div 10) @ [digit_char (n mod 10)])"
  by pat_completeness auto
termination
  by (relation "measure (\<lambda>n. n)") auto

declare decimal.simps [simp del]

definition fmt_Sprint :: "int \<Rightarrow> string" where
  "fmt_Sprint i = (if i < 0 then CHR ''-'' # decimal (nat (- i)) else decimal (nat i))"

subsection \<open>The store and the issuer\<close>

text \<open>
  Modelled from the spec: \<^verbatim>\<open>auth_identity.Basic\<close>, the join key record, is declared in a
  package of this repository that is not among the sources. The spec gives it the
  attributes \<open>provider\<close>, \<open>uid\<close> and \<open>userId\<close>.
\<close>

record Basic =
  Provider :: string
  UID :: string
  UserID :: string

definition Basic_zero :: Basic where
  "Basic_zero = \<lparr>Provider = [], UID = [], UserID = []\<rparr>"

text \<open>
  A row of the host's user model: opaque but for its generated primary key. A freshly
  allocated user (\<^verbatim>\<open>reflect.New\<close>) has the zero key.
\<close>

record LocalUser =
  PrimaryKey :: nat

definition LocalUser_zero :: LocalUser where
  "LocalUser_zero = \<lparr>PrimaryKey = 0\<rparr>"

text \<open>The profile that \<^verbatim>\<open>client.Users.Get\<close> returns: \<^verbatim>\<open>ID\<close> is a pointer, nil when absent.\<close>

record github_User =
  ID :: "int option"

datatype http_call =
  TokenRequest oauth2_Config string
  | UserRequest string

text \<open>
  The world the handler acts on: the two tables behind \<^verbatim>\<open>session.Auth.GetDB(req)\<close>, the
  key the store gives the next inserted user, and the HTTP calls made to the issuer.
\<close>

record world =
  AuthIdentities :: "Basic list"
  LocalUsers :: "LocalUser list"
  NextPrimaryKey :: nat
  HTTPLog :: "http_call list"

text \<open>
  What the handler does not control: the clock of the JWT library, the issuer's answer
  to the code exchange (an access token or an error) and to the profile request, and a
  fault for each of the four store operations (\<open>None\<close>: the operation runs).
\<close>

record env =
  Now :: int
  TokenEndpoint :: "oauth2_Config \<Rightarrow> string \<Rightarrow> error + string"
  UserEndpoint :: "string \<Rightarrow> error + github_User"
  ScanFault :: "error option"
  FirstFault :: "error option"
  CreateFault :: "error option"
  FirstOrCreateFault :: "error option"

text \<open>
  \<^verbatim>\<open>Where(authInfo)\<close> with a struct: the store's library builds the condition from the
  non-zero fields only.
\<close>

definition where_matches :: "Basic \<Rightarrow> Basic \<Rightarrow> bool" where
  "where_matches q r =
     ((Provider q = [] \<or> Provider r = Provider q) \<and>
      (UID q = [] \<or> UID r = UID q) \<and>
      (UserID q = [] \<or> UserID r = UserID q))"

text \<open>
  \<^verbatim>\<open>tx.Model(authIdentity).Where(authInfo).Scan(&authInfo)\<close>: the first matching row, the
  record-not-found error, or another error of the store. \<^verbatim>\<open>RecordNotFound()\<close> is true of
  the second only.
\<close>

datatype scan_result = Scanned Basic | ScanRecordNotFound | ScanError error

definition Scan :: "env \<Rightarrow> world \<Rightarrow> Basic \<Rightarrow> scan_result" where
  "Scan e w authInfo =
     (case ScanFault e of
        Some err \<Rightarrow> ScanError err
      | None \<Rightarrow>
          (case find (where_matches authInfo) (AuthIdentities w) of
             Some r \<Rightarrow> Scanned r
           | None \<Rightarrow> ScanRecordNotFound))"

fun RecordNotFound :: "scan_result \<Rightarrow> bool" where
  "RecordNotFound ScanRecordNotFound = True"
| "RecordNotFound _ = False"

text \<open>\<^verbatim>\<open>tx.First(currentUser, key)\<close>: the user read into \<^verbatim>\<open>currentUser\<close>, and \<^verbatim>\<open>.Error\<close>.\<close>

definition First :: "env \<Rightarrow> world \<Rightarrow> string \<Rightarrow> LocalUser \<times> error option" where
  "First e w key =
     (case FirstFault e of
        Some err \<Rightarrow> (LocalUser_zero, Some err)
      | None \<Rightarrow>
          (case find (\<lambda>u. fmt_Sprint (int (PrimaryKey u)) = key) (LocalUsers w) of
             Some u \<Rightarrow> (u, None)
           | None \<Rightarrow> (LocalUser_zero, Some ErrRecordNotFound)))"

text \<open>\<^verbatim>\<open>tx.Create(currentUser)\<close> of an empty user: the error, or the user with its key.\<close>

definition Create :: "env \<Rightarrow> world \<Rightarrow> error + LocalUser \<times> world" where
  "Create e w =
     (case CreateFault e of
        Some err \<Rightarrow> Inl err
      | None \<Rightarrow>
          (let u = \<lparr>PrimaryKey = NextPrimaryKey w\<rparr>
           in Inr (u, w\<lparr>LocalUsers := LocalUsers w @ [u],
                        NextPrimaryKey := Suc (NextPrimaryKey w)\<rparr>)))"

text \<open>
  \<^verbatim>\<open>tx.Where(authInfo).FirstOrCreate(authIdentity)\<close>: the record left in
  \<^verbatim>\<open>authIdentity\<close>, \<^verbatim>\<open>.Error\<close>, and the world after. A row that is created carries the
  fields of the condition.
\<close>

definition FirstOrCreate :: "env \<Rightarrow> world \<Rightarrow> Basic \<Rightarrow> Basic \<times> error option \<times> world" where
  "FirstOrCreate e w authInfo =
     (case FirstOrCreateFault e of
        Some err \<Rightarrow> (Basic_zero, Some err, w)
      | None \<Rightarrow>
          (case find (where_matches authInfo) (AuthIdentities w) of
             Some r \<Rightarrow> (r, None, w)
           | None \<Rightarrow> (authInfo, None, w\<lparr>AuthIdentities := AuthIdentities w @ [authInfo]\<rparr>)))"

subsection \<open>The default AuthorizeHandler\<close>

text \<open>
  The principal is an \<^verbatim>\<open>interface{}\<close>: the \<^verbatim>\<open>auth_identity.Basic\<close> value \<open>authInfo\<close>, the
  pointer \<open>authIdentity\<close> to a record of the identity model, or a pointer to a user.
  A call of the handler returns a principal and an error, either of which may be nil, or
  panics.
\<close>

datatype principal =
  BasicValue Basic
  | AuthIdentityPtr Basic
  | LocalUserPtr LocalUser

datatype outcome =
  Return "principal option" "error option"
  | Panic error

definition nil_dereference :: error where
  "nil_dereference = RuntimeError ''invalid memory address or nil pointer dereference''"

text \<open>The key function that the handler gives to \<^verbatim>\<open>jwt.Parse\<close> (lines 71 to 76).\<close>

definition keyFunc :: "session \<Rightarrow> Token \<Rightarrow> error + string" where
  "keyFunc sess token =
     (if Method token \<noteq> Some (SigningMethod sess)
      then Inl (ErrorString ''unexpected signing method'')
      else Inr (SignedString sess))"

text \<open>Lines 96 to 123: from the profile's id to the principal.\<close>

definition identityLink :: "session \<Rightarrow> env \<Rightarrow> world \<Rightarrow> int \<Rightarrow> outcome \<times> world" where
  "identityLink sess e w uid =
     (let authInfo = \<lparr>Provider = GetName, UID = fmt_Sprint uid, UserID = []\<rparr>;
          scanned = Scan e w authInfo;
          authInfo = (case scanned of Scanned r \<Rightarrow> r | _ \<Rightarrow> authInfo)
      in if \<not> RecordNotFound scanned then
           (if UserModel_set sess then
              (if UserID authInfo = [] then (Return None (Some ErrInvalidAccount), w)
               else (let (currentUser, err) = First e w (UserID authInfo)
                     in (Return (Some (LocalUserPtr currentUser)) err, w)))
            else (Return (Some (BasicValue authInfo)) None, w))
         else if UserModel_set sess then
           (case Create e w of
              Inl err \<Rightarrow> (Return None (Some err), w)
            | Inr (currentUser, w) \<Rightarrow>
                (let authInfo = authInfo\<lparr>UserID := fmt_Sprint (int (PrimaryKey currentUser))\<rparr>;
                     (authIdentity, err, w) = FirstOrCreate e w authInfo
                 in (Return (Some (LocalUserPtr currentUser)) err, w)))
         else
           (let (authIdentity, err, w) = FirstOrCreate e w authInfo
            in (Return (Some (AuthIdentityPtr authIdentity)) err, w)))"

text \<open>
  Lines 83 to 123, the block run when \<^verbatim>\<open>jwt.Parse\<close> returned no error: the code
  exchange, the profile request, then the link. Dereferencing a nil \<^verbatim>\<open>user.ID\<close> panics.
\<close>

definition exchangeAndLink ::
  "'h Config \<Rightarrow> request \<Rightarrow> session \<Rightarrow> env \<Rightarrow> world \<Rightarrow> outcome \<times> world" where
  "exchangeAndLink provider req sess e w =
     (let oauthCfg = OAuthConfig provider req sess;
          code = Query_code req;
          w = w\<lparr>HTTPLog := HTTPLog w @ [TokenRequest oauthCfg code]\<rparr>
      in case TokenEndpoint e oauthCfg code of
           Inl err \<Rightarrow> (Return None (Some err), w)
         | Inr tkn \<Rightarrow>
             (let w = w\<lparr>HTTPLog := HTTPLog w @ [UserRequest tkn]\<rparr>
              in case UserEndpoint e tkn of
                   Inl err \<Rightarrow> (Return None (Some err), w)
                 | Inr user \<Rightarrow>
                     (case ID user of
                        None \<Rightarrow> (Panic nil_dereference, w)
                      | Some uid \<Rightarrow> identityLink sess e w uid)))"

text \<open>
  The closure of lines 62 to 127. The type assertion of line 78 is the case on the
  dynamic type of \<^verbatim>\<open>token.Claims\<close>; reading \<^verbatim>\<open>token.Claims\<close> of a nil token panics.
\<close>

definition defaultAuthorizeHandler ::
  "'h Config \<Rightarrow> request \<Rightarrow> session \<Rightarrow> env \<Rightarrow> world \<Rightarrow> outcome \<times> world" where
  "defaultAuthorizeHandler provider req sess e w =
     (let state = Query_state req;
          (token, err) = jwt_Parse (Now e) state (keyFunc sess)
      in case token of
           None \<Rightarrow> (Panic nil_dereference, w)
         | Some tok \<Rightarrow>
             if (case Claims tok of
                   StandardClaimsPtr claims \<Rightarrow> \<not> Valid tok \<or> Subject claims \<noteq> ''state''
                 | _ \<Rightarrow> False)
             then (Return None (Some ErrUnauthorized), w)
             else
               (case err of
                  None \<Rightarrow> exchangeAndLink provider req sess e w
                | Some er \<Rightarrow> (Return None (Some er), w)))"

subsection \<open>New\<close>

type_synonym handler = "request \<Rightarrow> session \<Rightarrow> env \<Rightarrow> world \<Rightarrow> outcome \<times> world"

type_synonym GithubProvider = "handler Config"

text \<open>
  \<^verbatim>\<open>New(config)\<close>: \<open>None\<close> is a nil pointer, \<open>Inl err\<close> is \<^verbatim>\<open>panic(err)\<close>. The provider
  is the configuration it embeds. The closure reads the provider through
  \<^verbatim>\<open>OAuthConfig\<close> only, which does not read \<^verbatim>\<open>AuthorizeHandler\<close>.
\<close>

definition New :: "handler Config option \<Rightarrow> error + GithubProvider" where
  "New cfg =
     (let config = (case cfg of None \<Rightarrow> Config_zero | Some c \<Rightarrow> c)
      in if ClientID config = [] then Inl (ErrorString ''Github's ClientID can't be blank'')
         else if ClientSecret config = [] then Inl (ErrorString ''Github's ClientSecret can't be blank'')
         else
           (let config = (if AuthorizeURL config = []
                          then config\<lparr>AuthorizeURL := AuthorizeURL_var\<rparr> else config);
                config = (if TokenURL config = []
                          then config\<lparr>TokenURL := TokenURL_var\<rparr> else config);
                config = (if AuthorizeHandler config = None
                          then config\<lparr>AuthorizeHandler := Some (defaultAuthorizeHandler config)\<rparr>
                          else config)
            in Inr config))"

subsection \<open>Login\<close>

text \<open>
  \<^verbatim>\<open>oauth2.Config.AuthCodeURL(state)\<close>, by its query parameters: the redirect URL, the
  scope and the state are set only when they are not empty.
\<close>

record AuthCodeURL =
  url_endpoint :: string
  url_response_type :: string
  url_client_id :: string
  url_redirect_uri :: "string option"
  url_scope :: "string option"
  url_state :: "state_string option"

fun strings_Join :: "string list \<Rightarrow> string \<Rightarrow> string" where
  "strings_Join [] sep = []"
| "strings_Join [x] sep = x"
| "strings_Join (x # y # ys) sep = x @ sep @ strings_Join (y # ys) sep"

definition oauth2_AuthCodeURL :: "oauth2_Config \<Rightarrow> state_string \<Rightarrow> AuthCodeURL" where
  "oauth2_AuthCodeURL c state =
     \<lparr>url_endpoint = oa_AuthURL c,
      url_response_type = ''code'',
      url_client_id = oa_ClientID c,
      url_redirect_uri = (if oa_RedirectURL c \<noteq> [] then Some (oa_RedirectURL c) else None),
      url_scope = (if oa_Scopes c \<noteq> [] then Some (strings_Join (oa_Scopes c) '' '') else None),
      url_state = (if state \<noteq> NotThreeSegments [] then Some state else None)\<rparr>"

record response =
  StatusCode :: nat
  Location :: AuthCodeURL

definition StatusFound :: nat where
  "StatusFound = 302"

text \<open>
  \<^verbatim>\<open>Login\<close>: the error of \<^verbatim>\<open>SignedString\<close> is dropped, which leaves the empty string as
  the token.
\<close>

definition Login :: "'h Config \<Rightarrow> request \<Rightarrow> session \<Rightarrow> response" where
  "Login provider req sess =
     (let signedToken =
            (case Token_SignedString (SigningMethod sess)
                    \<lparr>Subject = ''state'', ExpiresAt = 0, IssuedAt = 0, NotBefore = 0\<rparr>
                    (SignedString sess) of
               Inl err \<Rightarrow> NotThreeSegments []
             | Inr s \<Rightarrow> s);
          url = oauth2_AuthCodeURL (OAuthConfig provider req sess) signedToken
      in \<lparr>StatusCode = StatusFound, Location = url\<rparr>)"

definition Register :: "'h Config \<Rightarrow> request \<Rightarrow> session \<Rightarrow> response" where
  "Register provider request sess = Login provider request sess"

text \<open>
  The callback of a flow that \<^verbatim>\<open>Login\<close> started: the issuer sends the browser back with
  the \<^verbatim>\<open>state\<close> parameter of the authorization URL unchanged (the empty string when the
  URL had none) and a code.
\<close>

definition callback_request :: "response \<Rightarrow> request \<Rightarrow> string \<Rightarrow> request" where
  "callback_request resp req code =
     req\<lparr>Query_state := (case url_state (Location resp) of
                            None \<Rightarrow> NotThreeSegments []
                          | Some s \<Rightarrow> s),
         Query_code := code\<rparr>"

subsection \<open>Sample values\<close>

text \<open>
  One concrete flow, used to run the definitions: a host at \<open>example.com\<close> that signs
  with HS256 under the secret \<open>secret\<close> and configures no user model, an issuer that
  answers every exchange with the token \<open>tkn\<close> and every profile request with the id 42,
  a store that is empty and has no faults.
\<close>

definition demo_session :: session where
  "demo_session = \<lparr>SigningMethod = HS256, SignedString = ''secret'', UserModel_set = False,
     AuthURL = (\<lambda>p. ''/auth/'' @ p)\<rparr>"

definition demo_config :: "'h Config" where
  "demo_config = \<lparr>ClientID = ''x'', ClientSecret = ''y'', AuthorizeURL = AuthorizeURL_var,
     TokenURL = TokenURL_var, RedirectURL = [], Scopes = [], AuthorizeHandler = None\<rparr>"

definition demo_claims :: jwt_claims where
  "demo_claims = \<lparr>Subject = ''state'', ExpiresAt = 0, IssuedAt = 0, NotBefore = 0\<rparr>"

definition demo_request :: request where
  "demo_request = \<lparr>URL_Scheme = [], Host = ''example.com'',
     Query_state = Compact HS256 demo_claims (Mac HS256 ''secret'' (HS256, demo_claims)),
     Query_code = ''c0de''\<rparr>"

definition demo_env :: env where
  "demo_env = \<lparr>Now = 1000, TokenEndpoint = (\<lambda>c code. Inr ''tkn''),
     UserEndpoint = (\<lambda>t. Inr \<lparr>ID = Some 42\<rparr>),
     ScanFault = None, FirstFault = None, CreateFault = None, FirstOrCreateFault = None\<rparr>"

definition demo_world :: world where
  "demo_world = \<lparr>AuthIdentities = [], LocalUsers = [], NextPrimaryKey = 1, HTTPLog = []\<rparr>"

section \<open>Properties\<close>

lemmas demo_defs =
  demo_session_def demo_config_def demo_claims_def demo_request_def demo_env_def demo_world_def

lemmas model_defs =
  defaultAuthorizeHandler_def exchangeAndLink_def identityLink_def jwt_Parse_def keyFunc_def
  Verify_def MapClaims_Valid_def OAuthConfig_def Scan_def First_def Create_def FirstOrCreate_def
  where_matches_def GetName_def fmt_Sprint_def digit_char_def decimal.simps Let_def

subsection \<open>Construction and the OAuth client configuration\<close>

text \<open>
  C9: for every configuration whose \<^verbatim>\<open>ClientID\<close> or \<^verbatim>\<open>ClientSecret\<close> is empty, and for the
  nil configuration, \<^verbatim>\<open>New\<close> does not return a provider: it panics with the error that
  names the blank field.
\<close>

theorem New_blank_credentials_panics:
  "(case cfg of None \<Rightarrow> True | Some c \<Rightarrow> ClientID c = [] \<or> ClientSecret c = []) \<Longrightarrow>
   New cfg = Inl (ErrorString ''Github's ClientID can't be blank'') \<or>
   New cfg = Inl (ErrorString ''Github's ClientSecret can't be blank'')"
  by (auto simp: New_def Config_zero_def Let_def split: option.splits)

theorem New_blank_credentials_panics_witness:
  "New None = Inl (ErrorString ''Github's ClientID can't be blank'') \<and>
   New (Some (demo_config\<lparr>ClientSecret := []\<rparr>)) =
     Inl (ErrorString ''Github's ClientSecret can't be blank'')"
  using New_blank_credentials_panics [of None]
    New_blank_credentials_panics [of "Some (demo_config\<lparr>ClientSecret := []\<rparr>)"]
  by (simp add: New_def Config_zero_def demo_config_def)

text \<open>
  With both credentials present \<^verbatim>\<open>New\<close> returns the provider, the two endpoint URLs
  defaulted and the default handler installed when none was given.
\<close>

lemma New_returns_provider:
  "ClientID c \<noteq> [] \<Longrightarrow> ClientSecret c \<noteq> [] \<Longrightarrow>
   \<exists>p. New (Some c) = Inr p \<and> ClientID p = ClientID c \<and> ClientSecret p = ClientSecret c \<and>
       AuthorizeURL p = (if AuthorizeURL c = [] then AuthorizeURL_var else AuthorizeURL c) \<and>
       TokenURL p = (if TokenURL c = [] then TokenURL_var else TokenURL c) \<and>
       AuthorizeHandler p \<noteq> None"
  by (simp add: New_def Let_def)

text \<open>
  C10: for every request whose URL scheme is not empty, the redirect URL that
  \<^verbatim>\<open>OAuthConfig\<close> builds is the scheme, the host and the callback path concatenated, with
  nothing between the scheme and the host.
\<close>

theorem OAuthConfig_scheme_concatenated:
  "URL_Scheme req \<noteq> [] \<Longrightarrow>
   oa_RedirectURL (OAuthConfig provider req sess) =
     URL_Scheme req @ Host req @ AuthURL sess ''github/callback''"
  by (simp add: OAuthConfig_def)

theorem OAuthConfig_scheme_concatenated_witness:
  "oa_RedirectURL (OAuthConfig demo_config (demo_request\<lparr>URL_Scheme := ''https''\<rparr>) demo_session) =
     ''httpsexample.com/auth/github/callback''"
  using OAuthConfig_scheme_concatenated
    [of "demo_request\<lparr>URL_Scheme := ''https''\<rparr>" demo_config demo_session]
  by (simp add: demo_defs)

text \<open>The separator is part of the default only, and the static redirect URL is never read.\<close>

lemma OAuthConfig_empty_scheme:
  "URL_Scheme req = [] \<Longrightarrow>
   oa_RedirectURL (OAuthConfig provider req sess) =
     ''http://'' @ Host req @ AuthURL sess ''github/callback''"
  by (simp add: OAuthConfig_def)

lemma OAuthConfig_RedirectURL_irrelevant:
  "OAuthConfig (provider\<lparr>RedirectURL := url\<rparr>) req sess = OAuthConfig provider req sess"
  by (simp add: OAuthConfig_def)

text \<open>
  C1: the claim is that a configured \<^verbatim>\<open>Config.RedirectURL\<close> is the redirect URL verbatim and
  that the URL is otherwise scheme, \<open>://\<close>, host and callback path. The code does
  neither: with the static URL \<open>https://app.example/oauth/cb\<close> configured, the request
  to host \<open>example.com\<close> with no scheme gets the composed URL, and the same request with
  the scheme \<open>https\<close> gets a URL without the separator.
\<close>

theorem OAuthConfig_static_RedirectURL_unused:
  "oa_RedirectURL (OAuthConfig (demo_config\<lparr>RedirectURL := ''https://app.example/oauth/cb''\<rparr>)
      demo_request demo_session) = ''http://example.com/auth/github/callback'' \<and>
   oa_RedirectURL (OAuthConfig (demo_config\<lparr>RedirectURL := ''https://app.example/oauth/cb''\<rparr>)
      (demo_request\<lparr>URL_Scheme := ''https''\<rparr>) demo_session) =
     ''httpsexample.com/auth/github/callback''"
  by (simp add: OAuthConfig_def demo_defs)

subsection \<open>The state token\<close>

text \<open>
  \<^verbatim>\<open>jwt.Parse\<close> with the handler's key function returns no error exactly for the tokens
  of the configured method whose MAC was computed under the configured secret and whose
  time claims hold; the method is then one of the HMAC family.
\<close>

lemma jwt_Parse_no_error:
  "jwt_Parse now st (keyFunc sess) = (tok, None) \<Longrightarrow>
   \<exists>c. st = Compact (SigningMethod sess) c
              (Mac (SigningMethod sess) (SignedString sess) (SigningMethod sess, c)) \<and>
       is_hmac (SigningMethod sess) \<and> snd (MapClaims_Valid now c) = {} \<and>
       tok = Some \<lparr>Method = Some (SigningMethod sess), Claims = MapClaims c, Valid = True\<rparr>"
  by (auto simp: jwt_Parse_def keyFunc_def Verify_def Let_def
      split: state_string.splits if_splits option.splits error.splits)

lemma jwt_Parse_signed:
  "is_hmac (SigningMethod sess) \<Longrightarrow> snd (MapClaims_Valid now c) = {} \<Longrightarrow>
   jwt_Parse now
     (Compact (SigningMethod sess) c
        (Mac (SigningMethod sess) (SignedString sess) (SigningMethod sess, c)))
     (keyFunc sess) =
     (Some \<lparr>Method = Some (SigningMethod sess), Claims = MapClaims c, Valid = True\<rparr>, None)"
  by (simp add: jwt_Parse_def keyFunc_def Verify_def Let_def)

text \<open>No token that \<^verbatim>\<open>jwt.Parse\<close> returns passes the type assertion of line 78.\<close>

lemma jwt_Parse_never_StandardClaims:
  "jwt_Parse now st kf = (Some tok, err) \<Longrightarrow> Claims tok \<noteq> StandardClaimsPtr c"
  by (auto simp: jwt_Parse_def Let_def split: state_string.splits sum.splits if_splits)

lemma handler_accepted:
  "jwt_Parse (Now e) (Query_state req) (keyFunc sess) = (tok, None) \<Longrightarrow>
   defaultAuthorizeHandler provider req sess e w = exchangeAndLink provider req sess e w"
  by (auto dest!: jwt_Parse_no_error simp: defaultAuthorizeHandler_def)

lemma exchangeAndLink_reaches_link:
  "TokenEndpoint e (OAuthConfig provider req sess) (Query_code req) = Inr tkn \<Longrightarrow>
   UserEndpoint e tkn = Inr user \<Longrightarrow> ID user = Some uid \<Longrightarrow>
   exchangeAndLink provider req sess e w =
     identityLink sess e
       (w\<lparr>HTTPLog := HTTPLog w @
             [TokenRequest (OAuthConfig provider req sess) (Query_code req), UserRequest tkn]\<rparr>) uid"
  by (simp add: exchangeAndLink_def Let_def)

lemma handler_reaches_link:
  assumes "jwt_Parse (Now e) (Query_state req) (keyFunc sess) = (tok, None)"
    and "TokenEndpoint e (OAuthConfig provider req sess) (Query_code req) = Inr tkn"
    and "UserEndpoint e tkn = Inr user" and "ID user = Some uid"
  shows "defaultAuthorizeHandler provider req sess e w =
     identityLink sess e
       (w\<lparr>HTTPLog := HTTPLog w @
             [TokenRequest (OAuthConfig provider req sess) (Query_code req), UserRequest tkn]\<rparr>) uid"
  using assms by (simp add: handler_accepted exchangeAndLink_reaches_link)

lemma identityLink_HTTPLog: "HTTPLog (snd (identityLink sess e w uid)) = HTTPLog w"
  by (auto simp: identityLink_def Let_def First_def Create_def FirstOrCreate_def
      split: scan_result.splits option.splits sum.splits prod.splits)

text \<open>The block of lines 83 to 123 starts with the request to the token endpoint.\<close>

lemma exchangeAndLink_HTTPLog:
  "\<exists>rest. HTTPLog (snd (exchangeAndLink provider req sess e w)) =
     HTTPLog w @ TokenRequest (OAuthConfig provider req sess) (Query_code req) # rest"
  by (auto simp: exchangeAndLink_def Let_def identityLink_HTTPLog split: sum.splits option.splits)



text \<open>
  C3: the claim is that a callback whose state token was signed with another secret gets
  \<open>ErrUnauthorized\<close> and makes no call to the token endpoint. The code makes no call and
  changes nothing, but the error it returns is the validation error of the JWT library:
  the branch that returns \<open>ErrUnauthorized\<close> is behind a type assertion that no parsed
  token passes.
\<close>

theorem forged_state_validation_error:
  assumes "Query_state req = Compact m c (Mac m key (m, c))" and "key \<noteq> SignedString sess"
  shows "\<exists>inner flags. defaultAuthorizeHandler provider req sess e w =
           (Return None (Some (ValidationError inner [] flags)), w)"
  using assms
  by (simp add: defaultAuthorizeHandler_def jwt_Parse_def keyFunc_def Verify_def Let_def)

theorem forged_state_validation_error_witness:
  "defaultAuthorizeHandler demo_config
     (demo_request\<lparr>Query_state := Compact HS256 demo_claims (Mac HS256 ''evil'' (HS256, demo_claims))\<rparr>)
     demo_session demo_env demo_world =
     (Return None (Some (ValidationError (Some ErrSignatureInvalid) []
        {ValidationErrorSignatureInvalid})), demo_world)"
  using forged_state_validation_error
    [of "demo_request\<lparr>Query_state := Compact HS256 demo_claims (Mac HS256 ''evil'' (HS256, demo_claims))\<rparr>"
        HS256 demo_claims "''evil''" demo_session demo_config demo_env demo_world]
  by (simp add: demo_defs model_defs)

text \<open>
  C2: the claim is that verification succeeds only for a token of the configured method,
  signed under the configured secret, whose subject is \<open>state\<close>, and that a well-signed
  token with another subject gets \<open>ErrUnauthorized\<close>. The first two conditions are
  necessary (\<open>jwt_Parse_no_error\<close>). The subject is not: every token of the configured
  method, signed under the configured secret and valid in time, passes the check and the
  handler goes on to the code exchange, whatever its subject.
\<close>

theorem state_subject_not_checked:
  assumes "is_hmac (SigningMethod sess)" and "snd (MapClaims_Valid (Now e) c) = {}"
    and "Query_state req = Compact (SigningMethod sess) c
           (Mac (SigningMethod sess) (SignedString sess) (SigningMethod sess, c))"
  shows "defaultAuthorizeHandler provider req sess e w = exchangeAndLink provider req sess e w"
  using assms by (simp add: handler_accepted jwt_Parse_signed)

theorem state_subject_not_checked_witness:
  "Subject (demo_claims\<lparr>Subject := ''session''\<rparr>) \<noteq> ''state'' \<and>
   defaultAuthorizeHandler demo_config
     (demo_request\<lparr>Query_state := Compact HS256 (demo_claims\<lparr>Subject := ''session''\<rparr>)
        (Mac HS256 ''secret'' (HS256, demo_claims\<lparr>Subject := ''session''\<rparr>))\<rparr>)
     demo_session demo_env demo_world =
     (Return (Some (AuthIdentityPtr \<lparr>Provider = ''github'', UID = ''42'', UserID = []\<rparr>)) None,
      demo_world\<lparr>AuthIdentities := [\<lparr>Provider = ''github'', UID = ''42'', UserID = []\<rparr>],
         HTTPLog := [TokenRequest (OAuthConfig demo_config demo_request demo_session) ''c0de'',
                     UserRequest ''tkn'']\<rparr>)"
  using state_subject_not_checked
    [of demo_session demo_env "demo_claims\<lparr>Subject := ''session''\<rparr>"
        "demo_request\<lparr>Query_state := Compact HS256 (demo_claims\<lparr>Subject := ''session''\<rparr>)
           (Mac HS256 ''secret'' (HS256, demo_claims\<lparr>Subject := ''session''\<rparr>))\<rparr>"
        demo_config demo_world]
  by (simp add: demo_defs model_defs)

text \<open>
  C4: for every HMAC signing method and every secret, the state token that \<^verbatim>\<open>Login\<close> puts
  into the authorization URL, sent back on the callback, parses without error and valid
  under the same method and secret; the handler goes on to the code exchange, and the
  first call it makes is the request to the token endpoint with the callback's code.
\<close>

theorem Login_callback_round_trip:
  assumes "is_hmac (SigningMethod sess)"
  shows "jwt_Parse (Now e) (Query_state (callback_request (Login provider req sess) req code))
           (keyFunc sess) =
           (Some \<lparr>Method = Some (SigningMethod sess),
                   Claims = MapClaims \<lparr>Subject = ''state'', ExpiresAt = 0, IssuedAt = 0, NotBefore = 0\<rparr>,
                   Valid = True\<rparr>, None) \<and>
         defaultAuthorizeHandler provider (callback_request (Login provider req sess) req code) sess e w =
           exchangeAndLink provider (callback_request (Login provider req sess) req code) sess e w \<and>
         (\<exists>rest. HTTPLog (snd (defaultAuthorizeHandler provider
                     (callback_request (Login provider req sess) req code) sess e w)) =
            HTTPLog w @ TokenRequest (OAuthConfig provider req sess) code # rest)"
proof -
  let ?c = "\<lparr>Subject = ''state'', ExpiresAt = 0, IssuedAt = 0, NotBefore = 0\<rparr>"
  let ?req = "callback_request (Login provider req sess) req code"
  have st: "Query_state ?req = Compact (SigningMethod sess) ?c
              (Mac (SigningMethod sess) (SignedString sess) (SigningMethod sess, ?c))"
    using assms
    by (simp add: callback_request_def Login_def Token_SignedString_def Sign_def
        oauth2_AuthCodeURL_def Let_def)
  have valid: "snd (MapClaims_Valid (Now e) ?c) = {}"
    by (simp add: MapClaims_Valid_def)
  have parse: "jwt_Parse (Now e) (Query_state ?req) (keyFunc sess) =
      (Some \<lparr>Method = Some (SigningMethod sess), Claims = MapClaims ?c, Valid = True\<rparr>, None)"
    unfolding st using assms valid by (rule jwt_Parse_signed)
  have run: "defaultAuthorizeHandler provider ?req sess e w = exchangeAndLink provider ?req sess e w"
    using parse by (rule handler_accepted)
  have cfg: "OAuthConfig provider ?req sess = OAuthConfig provider req sess"
    by (simp add: OAuthConfig_def callback_request_def)
  have code: "Query_code ?req = code"
    by (simp add: callback_request_def)
  from exchangeAndLink_HTTPLog [of provider ?req sess e w]
  have "\<exists>rest. HTTPLog (snd (exchangeAndLink provider ?req sess e w)) =
          HTTPLog w @ TokenRequest (OAuthConfig provider req sess) code # rest"
    by (simp only: cfg code)
  with parse run show ?thesis by simp
qed

theorem Login_callback_round_trip_witness:
  "is_hmac (SigningMethod demo_session) \<and>
   Query_state (callback_request (Login demo_config demo_request demo_session) demo_request ''c0de'') =
     Compact HS256 demo_claims (Mac HS256 ''secret'' (HS256, demo_claims)) \<and>
   defaultAuthorizeHandler demo_config
     (callback_request (Login demo_config demo_request demo_session) demo_request ''c0de'')
     demo_session demo_env demo_world =
     (Return (Some (AuthIdentityPtr \<lparr>Provider = ''github'', UID = ''42'', UserID = []\<rparr>)) None,
      demo_world\<lparr>AuthIdentities := [\<lparr>Provider = ''github'', UID = ''42'', UserID = []\<rparr>],
         HTTPLog := [TokenRequest (OAuthConfig demo_config demo_request demo_session) ''c0de'',
                     UserRequest ''tkn'']\<rparr>)"
  using Login_callback_round_trip
    [of demo_session demo_env demo_config demo_request "''c0de''" demo_world]
  by (simp add: demo_defs model_defs Login_def callback_request_def oauth2_AuthCodeURL_def
      Token_SignedString_def Sign_def)

text \<open>
  A method outside the HMAC family cannot sign with the byte-string secret: \<^verbatim>\<open>Login\<close>
  drops the error and sends no state, and the callback that follows panics on the nil
  token.
\<close>

lemma Login_callback_not_hmac:
  "\<not> is_hmac (SigningMethod sess) \<Longrightarrow>
   defaultAuthorizeHandler provider (callback_request (Login provider req sess) req code) sess e w =
     (Panic nil_dereference, w)"
  by (simp add: callback_request_def Login_def Token_SignedString_def Sign_def
      oauth2_AuthCodeURL_def Let_def defaultAuthorizeHandler_def jwt_Parse_def)

subsection \<open>The identity link\<close>

lemma decimal_nonempty: "decimal n \<noteq> []"
  by (subst decimal.simps) simp

lemma fmt_Sprint_nonempty: "fmt_Sprint i \<noteq> []"
  by (simp add: fmt_Sprint_def decimal_nonempty)

lemma Scan_HTTPLog: "Scan e (w\<lparr>HTTPLog := l\<rparr>) q = Scan e w q"
  by (simp add: Scan_def split: option.splits)

text \<open>A condition with one more field set matches no more rows.\<close>

lemma find_where_matches_UserID:
  "find (where_matches \<lparr>Provider = a, UID = b, UserID = []\<rparr>) xs = None \<Longrightarrow>
   find (where_matches \<lparr>Provider = a, UID = b, UserID = k\<rparr>) xs = None"
  by (auto simp: find_None_iff where_matches_def)

lemma identityLink_orphan:
  assumes "UserModel_set sess"
    and "r \<in> set (AuthIdentities w)" and "Provider r = GetName" and "UID r = fmt_Sprint uid"
    and "\<forall>r' \<in> set (AuthIdentities w).
           Provider r' = GetName \<and> UID r' = fmt_Sprint uid \<longrightarrow> UserID r' = []"
  shows "identityLink sess e w uid = (Return None (Some ErrInvalidAccount), w)"
proof (cases "Scan e w \<lparr>Provider = GetName, UID = fmt_Sprint uid, UserID = []\<rparr>")
  case (Scanned x)
  then have "find (where_matches \<lparr>Provider = GetName, UID = fmt_Sprint uid, UserID = []\<rparr>)
               (AuthIdentities w) = Some x"
    by (simp add: Scan_def split: option.splits)
  then have "x \<in> set (AuthIdentities w)" and "where_matches \<lparr>Provider = GetName, UID = fmt_Sprint uid, UserID = []\<rparr> x"
    by (auto simp: find_Some_iff)
  then have "UserID x = []"
    using assms(5) by (auto simp: where_matches_def GetName_def fmt_Sprint_nonempty)
  with Scanned assms(1) show ?thesis
    by (simp add: identityLink_def Let_def)
next
  case ScanRecordNotFound
  then have "find (where_matches \<lparr>Provider = GetName, UID = fmt_Sprint uid, UserID = []\<rparr>)
               (AuthIdentities w) = None"
    by (simp add: Scan_def split: option.splits)
  with assms(2-4) have False
    by (auto simp: find_None_iff where_matches_def)
  then show ?thesis ..
next
  case (ScanError x)
  with assms(1) show ?thesis
    by (simp add: identityLink_def Let_def)
qed

text \<open>
  C5: for every callback that reaches the link (state accepted, code exchanged, profile
  with an id) while a user model is configured and the store holds an identity for
  \<open>(github, uid)\<close> whose \<open>UserID\<close> is empty, the handler returns \<open>ErrInvalidAccount\<close>
  with no principal, and both tables are as they were.
\<close>

theorem orphan_identity_InvalidAccount:
  assumes "jwt_Parse (Now e) (Query_state req) (keyFunc sess) = (tok, None)"
    and "TokenEndpoint e (OAuthConfig provider req sess) (Query_code req) = Inr tkn"
    and "UserEndpoint e tkn = Inr user" and "ID user = Some uid"
    and "UserModel_set sess"
    and "r \<in> set (AuthIdentities w)" and "Provider r = GetName" and "UID r = fmt_Sprint uid"
    and "\<forall>r' \<in> set (AuthIdentities w).
           Provider r' = GetName \<and> UID r' = fmt_Sprint uid \<longrightarrow> UserID r' = []"
  shows "fst (defaultAuthorizeHandler provider req sess e w) = Return None (Some ErrInvalidAccount) \<and>
         AuthIdentities (snd (defaultAuthorizeHandler provider req sess e w)) = AuthIdentities w \<and>
         LocalUsers (snd (defaultAuthorizeHandler provider req sess e w)) = LocalUsers w"
proof -
  let ?w = "w\<lparr>HTTPLog := HTTPLog w @
             [TokenRequest (OAuthConfig provider req sess) (Query_code req), UserRequest tkn]\<rparr>"
  have "defaultAuthorizeHandler provider req sess e w = identityLink sess e ?w uid"
    using assms(1-4) by (rule handler_reaches_link)
  moreover have "identityLink sess e ?w uid = (Return None (Some ErrInvalidAccount), ?w)"
    using assms(5-9) by (intro identityLink_orphan [where r = r]) simp_all
  ultimately show ?thesis by simp
qed

theorem orphan_identity_InvalidAccount_witness:
  "defaultAuthorizeHandler demo_config demo_request (demo_session\<lparr>UserModel_set := True\<rparr>)
     (demo_env\<lparr>UserEndpoint := \<lambda>t. Inr \<lparr>ID = Some 9\<rparr>\<rparr>)
     (demo_world\<lparr>AuthIdentities := [\<lparr>Provider = ''github'', UID = ''9'', UserID = []\<rparr>]\<rparr>) =
     (Return None (Some ErrInvalidAccount),
      demo_world\<lparr>AuthIdentities := [\<lparr>Provider = ''github'', UID = ''9'', UserID = []\<rparr>],
         HTTPLog := [TokenRequest (OAuthConfig demo_config demo_request demo_session) ''c0de'',
                     UserRequest ''tkn'']\<rparr>)"
  using orphan_identity_InvalidAccount
    [where e = "demo_env\<lparr>UserEndpoint := \<lambda>t. Inr \<lparr>ID = Some 9\<rparr>\<rparr>" and req = demo_request
       and sess = "demo_session\<lparr>UserModel_set := True\<rparr>" and provider = demo_config
       and tok = "Some \<lparr>Method = Some HS256, Claims = MapClaims demo_claims, Valid = True\<rparr>"
       and tkn = "''tkn''" and user = "\<lparr>ID = Some 9\<rparr>" and uid = 9
       and r = "\<lparr>Provider = ''github'', UID = ''9'', UserID = []\<rparr>"
       and w = "demo_world\<lparr>AuthIdentities := [\<lparr>Provider = ''github'', UID = ''9'', UserID = []\<rparr>]\<rparr>"]
  by (simp add: demo_defs model_defs)



text \<open>
  When the lookup itself fails with another error of the store, \<^verbatim>\<open>RecordNotFound()\<close> is
  false and the handler takes the branch of a found record with \<open>authInfo\<close> as it was:
  without a user model it returns that value and no error, and no row is written.
\<close>

lemma identityLink_lookup_error:
  "ScanFault e = Some err \<Longrightarrow> \<not> UserModel_set sess \<Longrightarrow>
   identityLink sess e w uid =
     (Return (Some (BasicValue \<lparr>Provider = GetName, UID = fmt_Sprint uid, UserID = []\<rparr>)) None, w)"
  by (simp add: identityLink_def Scan_def Let_def)

text \<open>
  C7: on a first login (the lookup reports no record) with a user model configured, the
  handler first creates an empty user. If that fails it returns the error with no
  principal and writes nothing. If it succeeds and creating the identity fails, it
  returns that error, and the user row stays in the table while the identity table is
  unchanged. If both succeed the identity carries the new user's key in decimal.
\<close>

theorem first_login_user_model_creation_failures:
  assumes "jwt_Parse (Now e) (Query_state req) (keyFunc sess) = (tok, None)"
    and "TokenEndpoint e (OAuthConfig provider req sess) (Query_code req) = Inr tkn"
    and "UserEndpoint e tkn = Inr user" and "ID user = Some uid"
    and "UserModel_set sess"
    and "Scan e w \<lparr>Provider = GetName, UID = fmt_Sprint uid, UserID = []\<rparr> = ScanRecordNotFound"
    and "w1 = w\<lparr>HTTPLog := HTTPLog w @
                 [TokenRequest (OAuthConfig provider req sess) (Query_code req), UserRequest tkn]\<rparr>"
    and "u = \<lparr>PrimaryKey = NextPrimaryKey w\<rparr>"
  shows "(\<forall>err. CreateFault e = Some err \<longrightarrow>
            defaultAuthorizeHandler provider req sess e w = (Return None (Some err), w1)) \<and>
         (\<forall>err. CreateFault e = None \<and> FirstOrCreateFault e = Some err \<longrightarrow>
            defaultAuthorizeHandler provider req sess e w =
              (Return (Some (LocalUserPtr u)) (Some err),
               w1\<lparr>LocalUsers := LocalUsers w @ [u], NextPrimaryKey := Suc (NextPrimaryKey w)\<rparr>)) \<and>
         (CreateFault e = None \<and> FirstOrCreateFault e = None \<longrightarrow>
            defaultAuthorizeHandler provider req sess e w =
              (Return (Some (LocalUserPtr u)) None,
               w1\<lparr>LocalUsers := LocalUsers w @ [u], NextPrimaryKey := Suc (NextPrimaryKey w),
                   AuthIdentities := AuthIdentities w @
                     [\<lparr>Provider = GetName, UID = fmt_Sprint uid,
                       UserID = fmt_Sprint (int (NextPrimaryKey w))\<rparr>]\<rparr>))"
proof -
  let ?key = "\<lparr>Provider = GetName, UID = fmt_Sprint uid, UserID = []\<rparr>"
  have run: "defaultAuthorizeHandler provider req sess e w = identityLink sess e w1 uid"
    unfolding assms(7) using assms(1-4) by (rule handler_reaches_link)
  have scan: "Scan e w1 ?key = ScanRecordNotFound"
    using assms(6) by (simp add: assms(7) Scan_HTTPLog)
  have "find (where_matches ?key) (AuthIdentities w) = None"
    using assms(6) by (simp add: Scan_def split: option.splits)
  then have none: "find (where_matches (?key\<lparr>UserID := k\<rparr>)) (AuthIdentities w) = None" for k
    by (simp add: find_where_matches_UserID)
  have a: "identityLink sess e w1 uid = (Return None (Some err), w1)"
    if "CreateFault e = Some err" for err
    using that scan assms(5) by (simp add: identityLink_def Let_def Create_def)
  have b: "identityLink sess e w1 uid =
      (Return (Some (LocalUserPtr u)) (Some err),
       w1\<lparr>LocalUsers := LocalUsers w @ [u], NextPrimaryKey := Suc (NextPrimaryKey w)\<rparr>)"
    if "CreateFault e = None" and "FirstOrCreateFault e = Some err" for err
    using that scan assms(5)
    by (simp add: identityLink_def Let_def Create_def FirstOrCreate_def assms(7,8))
  have c: "identityLink sess e w1 uid =
      (Return (Some (LocalUserPtr u)) None,
       w1\<lparr>LocalUsers := LocalUsers w @ [u], NextPrimaryKey := Suc (NextPrimaryKey w),
           AuthIdentities := AuthIdentities w @
             [\<lparr>Provider = GetName, UID = fmt_Sprint uid,
               UserID = fmt_Sprint (int (NextPrimaryKey w))\<rparr>]\<rparr>)"
    if "CreateFault e = None" and "FirstOrCreateFault e = None"
    using that scan assms(5) none [of "fmt_Sprint (int (NextPrimaryKey w))"]
    by (simp add: identityLink_def Let_def Create_def FirstOrCreate_def assms(7,8))
  from a b c show ?thesis
    unfolding run by blast
qed

theorem first_login_user_model_creation_failures_witness:
  "defaultAuthorizeHandler demo_config demo_request (demo_session\<lparr>UserModel_set := True\<rparr>)
     (demo_env\<lparr>FirstOrCreateFault := Some (ErrorString ''constraint failed'')\<rparr>) demo_world =
     (Return (Some (LocalUserPtr \<lparr>PrimaryKey = 1\<rparr>)) (Some (ErrorString ''constraint failed'')),
      demo_world\<lparr>LocalUsers := [\<lparr>PrimaryKey = 1\<rparr>], NextPrimaryKey := 2,
         HTTPLog := [TokenRequest (OAuthConfig demo_config demo_request demo_session) ''c0de'',
                     UserRequest ''tkn'']\<rparr>) \<and>
   defaultAuthorizeHandler demo_config demo_request (demo_session\<lparr>UserModel_set := True\<rparr>)
     (demo_env\<lparr>CreateFault := Some (ErrorString ''insert failed'')\<rparr>) demo_world =
     (Return None (Some (ErrorString ''insert failed'')),
      demo_world\<lparr>HTTPLog := [TokenRequest (OAuthConfig demo_config demo_request demo_session) ''c0de'',
                     UserRequest ''tkn'']\<rparr>)"
  using first_login_user_model_creation_failures
    [where e = "demo_env\<lparr>FirstOrCreateFault := Some (ErrorString ''constraint failed'')\<rparr>"
       and req = demo_request and sess = "demo_session\<lparr>UserModel_set := True\<rparr>"
       and provider = demo_config
       and tok = "Some \<lparr>Method = Some HS256, Claims = MapClaims demo_claims, Valid = True\<rparr>"
       and tkn = "''tkn''" and user = "\<lparr>ID = Some 42\<rparr>" and uid = 42 and w = demo_world
       and u = "\<lparr>PrimaryKey = 1\<rparr>"
       and ?w1.0 = "demo_world\<lparr>HTTPLog := [TokenRequest (OAuthConfig demo_config demo_request demo_session) ''c0de'',
                     UserRequest ''tkn'']\<rparr>"]
    first_login_user_model_creation_failures
    [where e = "demo_env\<lparr>CreateFault := Some (ErrorString ''insert failed'')\<rparr>"
       and req = demo_request and sess = "demo_session\<lparr>UserModel_set := True\<rparr>"
       and provider = demo_config
       and tok = "Some \<lparr>Method = Some HS256, Claims = MapClaims demo_claims, Valid = True\<rparr>"
       and tkn = "''tkn''" and user = "\<lparr>ID = Some 42\<rparr>" and uid = 42 and w = demo_world
       and u = "\<lparr>PrimaryKey = 1\<rparr>"
       and ?w1.0 = "demo_world\<lparr>HTTPLog := [TokenRequest (OAuthConfig demo_config demo_request demo_session) ''c0de'',
                     UserRequest ''tkn'']\<rparr>"]
  by (simp add: demo_defs model_defs)

end
